theory Spec2Isabelle
  imports Main "HOL-Library.Word" "HOL-Library.Sublist"
begin

section \<open>Strings\<close>

text \<open>
  A JavaScript string is modelled as a \<open>string\<close>, one \<open>char\<close> per byte of its UTF-8
  encoding. Every literal the server compares against is ASCII. \<open>toLowerCase\<close> and the
  \<open>i\<close> flag of a regular expression are modelled on the ASCII letters and leave every
  other byte alone. That is exact for the comparisons the server makes: lower-casing a
  name with a character outside ASCII never yields one of the allowed extensions, and a
  regular expression without the \<open>u\<close> flag never lets a character outside ASCII match
  an ASCII one.
\<close>

definition toLowerCase_char :: "char \<Rightarrow> char" where
  "toLowerCase_char c =
     (case map_of (zip ''ABCDEFGHIJKLMNOPQRSTUVWXYZ'' ''abcdefghijklmnopqrstuvwxyz'') c of
        Some d \<Rightarrow> d
      | None \<Rightarrow> c)"

definition toLowerCase :: "string \<Rightarrow> string" where
  "toLowerCase s = map toLowerCase_char s"

definition upper_letters :: string where
  "upper_letters = ''ABCDEFGHIJKLMNOPQRSTUVWXYZ''"

text \<open>
  Case-insensitive matching compares canonical forms; the canonical form of a character
  is its upper-case counterpart.
\<close>

definition canonicalize :: "char \<Rightarrow> char" where
  "canonicalize c =
     (case map_of (zip ''abcdefghijklmnopqrstuvwxyz'' ''ABCDEFGHIJKLMNOPQRSTUVWXYZ'') c of
        Some d \<Rightarrow> d
      | None \<Rightarrow> c)"

text \<open>\<open>/^lit$/i.test(s)\<close> for a literal \<open>lit\<close>: the whole of \<open>s\<close>, ignoring case.\<close>

definition ci_match :: "string \<Rightarrow> string \<Rightarrow> bool" where
  "ci_match lit s = (map canonicalize lit = map canonicalize s)"

text \<open>\<open>s.includes(sub)\<close>.\<close>

fun js_includes :: "string \<Rightarrow> string \<Rightarrow> bool" where
  "js_includes [] sub = (sub = [])"
| "js_includes (c # cs) sub = (take (length sub) (c # cs) = sub \<or> js_includes cs sub)"

text \<open>\<open>s.replace(/\//g, '-')\<close>: every slash becomes a dash.\<close>

fun replace_slashes :: "string \<Rightarrow> string" where
  "replace_slashes [] = []"
| "replace_slashes (c # cs) = (if c = CHR ''/'' then CHR ''-'' else c) # replace_slashes cs"

text \<open>\<open>s.replace(/\/$/, '')\<close>: one slash at the end of the string is removed.\<close>

definition strip_trailing_slash :: "string \<Rightarrow> string" where
  "strip_trailing_slash s = (if s \<noteq> [] \<and> last s = CHR ''/'' then butlast s else s)"

text \<open>
  Truthiness of an optional string: \<open>undefined\<close> and the empty string are falsy.
  \<open>a || b\<close> is \<open>a\<close> when \<open>a\<close> is truthy and \<open>b\<close> otherwise.
\<close>

definition truthy :: "string option \<Rightarrow> bool" where
  "truthy a = (case a of None \<Rightarrow> False | Some s \<Rightarrow> s \<noteq> [])"

definition js_or :: "string option \<Rightarrow> string option \<Rightarrow> string option" where
  "js_or a b = (if truthy a then a else b)"

definition or_default :: "string option \<Rightarrow> string \<Rightarrow> string" where
  "or_default a d = (case a of None \<Rightarrow> d | Some s \<Rightarrow> if s = [] then d else s)"

section \<open>\<open>path.extname\<close>\<close>

text \<open>
  The POSIX implementation of Node's \<open>path.extname\<close>: one pass over the path from its
  last character to its first, which finds the end of the last path component, the
  last dot in it, and whether a character other than a dot stands before that dot.
\<close>

record extname_state =
  startDot :: int
  startPart :: int
  endp :: int
  matchedSlash :: bool
  preDotState :: int

fun extname_loop :: "string \<Rightarrow> nat \<Rightarrow> extname_state \<Rightarrow> extname_state" where
  "extname_loop path 0 s = s"
| "extname_loop path (Suc i) s =
     (let code = path ! i in
      if code = CHR ''/'' then
        (if \<not> matchedSlash s then s\<lparr>startPart := int i + 1\<rparr>
         else extname_loop path i s)
      else
        let s1 = (if endp s = -1 then s\<lparr>endp := int i + 1, matchedSlash := False\<rparr> else s);
            s2 = (if code = CHR ''.'' then
                    (if startDot s1 = -1 then s1\<lparr>startDot := int i\<rparr>
                     else if preDotState s1 \<noteq> 1 then s1\<lparr>preDotState := 1\<rparr>
                     else s1)
                  else if startDot s1 \<noteq> -1 then s1\<lparr>preDotState := -1\<rparr>
                  else s1)
        in extname_loop path i s2)"

definition slice :: "string \<Rightarrow> int \<Rightarrow> int \<Rightarrow> string" where
  "slice s a b = take (nat (b - a)) (drop (nat a) s)"

definition extname :: "string \<Rightarrow> string" where
  "extname path =
     (let s = extname_loop path (length path)
                \<lparr>startDot = -1, startPart = 0, endp = -1, matchedSlash = True,
                 preDotState = 0\<rparr>
      in if startDot s = -1 \<or> endp s = -1 \<or> preDotState s = 0 \<or>
            (preDotState s = 1 \<and> startDot s = endp s - 1 \<and> startDot s = startPart s + 1)
         then []
         else slice path (startDot s) (endp s))"

section \<open>Requests, responses and errors\<close>

type_synonym bytes = "8 word list"

text \<open>
  The file multer hands to the filter and to the handler. With memory storage the size
  of the file is the length of its buffer. The original name is a string: multer passes
  on only the parts that carry a file name.
\<close>

record upload_file =
  originalname :: string
  mimetype :: string
  buffer :: bytes

text \<open>
  The fields of a request the upload route reads: the identifier under its four names,
  each missing or a string (what a text field of a multipart body and a plain query
  parameter are), and the part of the multipart body named \<open>file\<close>, if there is one.
\<close>

record request =
  query_userId :: "string option"
  query_user_id :: "string option"
  body_userId :: "string option"
  body_user_id :: "string option"
  file_part :: "upload_file option"

datatype js_error = Error string | MulterError string string

fun message :: "js_error \<Rightarrow> string" where
  "message (Error m) = m"
| "message (MulterError c m) = m"

record item =
  item_key :: string
  item_size :: nat
  item_lastModified :: nat
  item_url :: "string option"

datatype json =
    ErrorJson string
  | UploadJson bool string string
  | ListJson string nat "item list"
  | UrlJson string

record response =
  status :: nat
  body :: json

section \<open>The upload filter\<close>

text \<open>
  \<open>allowedMime\<close> is \<open>/^image\/(jpeg|jpg|pjpeg|png|gif|webp)$/i\<close>: the literal
  \<open>image/\<close> followed by one of six alternatives, anchored at both ends.
\<close>

definition allowedMime_test :: "string \<Rightarrow> bool" where
  "allowedMime_test s =
     list_ex (\<lambda>alt. ci_match (''image/'' @ alt) s)
       [''jpeg'', ''jpg'', ''pjpeg'', ''png'', ''gif'', ''webp'']"

definition allowedExt :: "string list" where
  "allowedExt = [''.jpg'', ''.jpeg'', ''.png'', ''.gif'', ''.webp'']"

definition only_images :: js_error where
  "only_images = Error ''Only images (.jpeg, .jpg, .png, .gif, .webp) are allowed.''"

text \<open>
  \<open>fileFilter\<close> calls back with \<open>(null, true)\<close>, modelled as \<open>Inr True\<close>, or with an
  error, modelled as \<open>Inl\<close>. \<open>file.originalname || ''\<close> is the name itself, and
  \<open>path.extname(...) || ''\<close> is the extension, empty when there is none.
\<close>

definition fileFilter :: "upload_file \<Rightarrow> js_error + bool" where
  "fileFilter file =
     (if allowedMime_test (mimetype file) then Inr True
      else
        let ext = toLowerCase (or_default (Some (extname (originalname file))) [])
        in if ext \<in> set allowedExt then Inr True else Inl only_images)"

section \<open>The error-handling middleware\<close>

definition errorMiddleware :: "js_error \<Rightarrow> response" where
  "errorMiddleware err =
     (if (case err of MulterError c m \<Rightarrow> c = ''LIMIT_FILE_SIZE'' | Error m \<Rightarrow> False)
      then \<lparr>status = 400, body = ErrorJson ''File too large. Max 5 MB.''\<rparr>
      else if message err \<noteq> [] \<and> js_includes (message err) ''Only images''
      then \<lparr>status = 400, body = ErrorJson (message err)\<rparr>
      else \<lparr>status = 500, body = ErrorJson (or_default (Some (message err)) ''Server error'')\<rparr>)"

section \<open>\<open>decodeURIComponent\<close>\<close>

text \<open>
  \<open>decodeURIComponent\<close> replaces each escape \<open>%XY\<close> by the byte it names. It throws a
  \<open>URIError\<close>, modelled as \<open>None\<close>, when a percent sign is not followed by two
  hexadecimal digits, and when the escaped bytes from \<open>0x80\<close> up are not the UTF-8
  encoding of a code point. Characters that are not escaped are copied.
\<close>

definition hex_value :: "char \<Rightarrow> nat option" where
  "hex_value c =
     map_of (zip ''0123456789abcdefABCDEF''
       [0, 1, 2, 3, 4, 5, 6, 7, 8, 9, 10, 11, 12, 13, 14, 15, 10, 11, 12, 13, 14, 15]) c"

definition escape_at :: "string \<Rightarrow> (nat \<times> string) option" where
  "escape_at s =
     (case s of
        p # x # y # rest \<Rightarrow>
          (if p = CHR ''%'' then
             (case hex_value x of
                None \<Rightarrow> None
              | Some a \<Rightarrow>
                 (case hex_value y of
                    None \<Rightarrow> None
                  | Some b \<Rightarrow> Some (16 * a + b, rest)))
           else None)
      | _ \<Rightarrow> None)"

fun escapes :: "nat \<Rightarrow> string \<Rightarrow> (nat list \<times> string) option" where
  "escapes 0 s = Some ([], s)"
| "escapes (Suc n) s =
     (case escape_at s of
        None \<Rightarrow> None
      | Some (b, rest) \<Rightarrow>
         (case escapes n rest of
            None \<Rightarrow> None
          | Some (bs, rest') \<Rightarrow> Some (b # bs, rest')))"

text \<open>The number of leading one bits of a byte from \<open>0x80\<close> up (5 stands for 5 or more).\<close>

definition leading_ones :: "nat \<Rightarrow> nat" where
  "leading_ones b =
     (if b < 0x80 then 0 else if b < 0xC0 then 1 else if b < 0xE0 then 2
      else if b < 0xF0 then 3 else if b < 0xF8 then 4 else 5)"

definition continuation :: "nat \<Rightarrow> bool" where
  "continuation b = (0x80 \<le> b \<and> b \<le> 0xBF)"

text \<open>The well-formed UTF-8 byte sequences of two, three and four bytes.\<close>

fun valid_utf8 :: "nat list \<Rightarrow> bool" where
  "valid_utf8 [b0, b1] = (0xC2 \<le> b0 \<and> b0 \<le> 0xDF \<and> continuation b1)"
| "valid_utf8 [b0, b1, b2] =
     (((b0 = 0xE0 \<and> 0xA0 \<le> b1 \<and> b1 \<le> 0xBF) \<or>
       (0xE1 \<le> b0 \<and> b0 \<le> 0xEC \<and> continuation b1) \<or>
       (b0 = 0xED \<and> 0x80 \<le> b1 \<and> b1 \<le> 0x9F) \<or>
       (0xEE \<le> b0 \<and> b0 \<le> 0xEF \<and> continuation b1)) \<and>
      continuation b2)"
| "valid_utf8 [b0, b1, b2, b3] =
     (((b0 = 0xF0 \<and> 0x90 \<le> b1 \<and> b1 \<le> 0xBF) \<or>
       (0xF1 \<le> b0 \<and> b0 \<le> 0xF3 \<and> continuation b1) \<or>
       (b0 = 0xF4 \<and> 0x80 \<le> b1 \<and> b1 \<le> 0x8F)) \<and>
      continuation b2 \<and> continuation b3)"
| "valid_utf8 bs = False"

lemma escape_at_shorter: "escape_at s = Some (b, rest) \<Longrightarrow> length rest < length s"
  by (auto simp: escape_at_def split: list.splits if_splits option.splits)

lemma escapes_not_longer: "escapes n s = Some (bs, rest) \<Longrightarrow> length rest \<le> length s"
proof (induction n arbitrary: s bs rest)
  case 0
  then show ?case by simp
next
  case (Suc n)
  then show ?case
    by (fastforce split: option.splits prod.splits dest: escape_at_shorter)
qed

function decode :: "string \<Rightarrow> string option" where
  "decode s =
     (case s of
        [] \<Rightarrow> Some []
      | c # cs \<Rightarrow>
         if c \<noteq> CHR ''%'' then
           (case decode cs of None \<Rightarrow> None | Some r \<Rightarrow> Some (c # r))
         else
           (case escape_at s of
              None \<Rightarrow> None
            | Some (b, rest) \<Rightarrow>
               if b < 0x80 then
                 (case decode rest of None \<Rightarrow> None | Some r \<Rightarrow> Some (char_of b # r))
               else if leading_ones b < 2 \<or> 4 < leading_ones b then None
               else
                 (case escapes (leading_ones b - 1) rest of
                    None \<Rightarrow> None
                  | Some (bs, rest') \<Rightarrow>
                     if valid_utf8 (b # bs) then
                       (case decode rest' of
                          None \<Rightarrow> None
                        | Some r \<Rightarrow> Some (map char_of (b # bs) @ r))
                     else None)))"
  by pat_completeness auto
termination
proof (relation "measure length")
  show "wf (measure length)" by simp
next
  fix s :: string and c cs
  assume "s = c # cs"
  then show "(cs, s) \<in> measure length" by simp
next
  fix s :: string and x2 b rest
  assume "escape_at s = Some x2" "(b, rest) = x2"
  then show "(rest, s) \<in> measure length"
    using escape_at_shorter [of s b rest] by simp
next
  fix s :: string and x2 b rest x2a bs rest'
  assume "escape_at s = Some x2" "(b, rest) = x2"
    "escapes (leading_ones b - 1) rest = Some x2a" "(bs, rest') = x2a"
  then show "(rest', s) \<in> measure length"
    using escape_at_shorter [of s b rest] escapes_not_longer [of "leading_ones b - 1" rest bs rest']
    by simp
qed

declare decode.simps [simp del]

definition decodeURIComponent :: "string \<Rightarrow> string option" where
  "decodeURIComponent s = decode s"

section \<open>Configuration\<close>

text \<open>The environment variables the handlers read.\<close>

record env =
  S3_BUCKET :: string
  S3_PROFILE_PREFIX :: "string option"
  S3_PUBLIC_BASE_URL :: "string option"

definition BUCKET :: "env \<Rightarrow> string" where
  "BUCKET e = S3_BUCKET e"

definition PROFILE_PREFIX :: "env \<Rightarrow> string" where
  "PROFILE_PREFIX e = or_default (S3_PROFILE_PREFIX e) ''profile-pics''"

section \<open>The object store and its client\<close>

text \<open>
  The bucket is a map from keys to objects. The client is the external collaborator:
  whether a put is refused (with which message), what the signer returns for a bucket,
  a key and a lifetime in seconds, and what a listing returns, are its business and are
  parameters here. A refused put leaves the bucket as it was. The signer computes the
  URL from its arguments alone. Every command the server sends is logged in order.
\<close>

record stored_object =
  Body :: bytes
  ContentType :: string
  CacheControl :: string

type_synonym store = "string \<rightharpoonup> stored_object"

record s3_object =
  Key :: string
  Size :: nat
  LastModified :: nat

datatype s3_call =
    PutObjectCommand string string bytes string string
  | GetSignedUrl string string nat
  | ListObjectsV2Command string string nat

record s3Client =
  put_error :: "string \<Rightarrow> string \<Rightarrow> string option"
  presign :: "string \<Rightarrow> string \<Rightarrow> nat \<Rightarrow> string + string"
  list_reply :: "string \<Rightarrow> string \<Rightarrow> nat \<Rightarrow> string + s3_object list option"

record outcome =
  resp :: response
  store_after :: store
  calls :: "s3_call list"

section \<open>The multipart middleware\<close>

definition fileSize_limit :: nat where
  "fileSize_limit = 5 * 1024 * 1024"

text \<open>
  Modelled from the spec: the size check and the order of the checks of
  \<open>upload.single('file')\<close> are the multer library's, whose code is not in the repository.
  The filter of the server runs first and its error ends the request; the spec's
  "reject if byte length exceeds 5 MiB" is the comparison with the configured limit,
  reported as a \<open>MulterError\<close> with code \<open>LIMIT_FILE_SIZE\<close>. A request without a part
  named \<open>file\<close> reaches the handler with no file.
\<close>

definition upload_single :: "request \<Rightarrow> js_error + upload_file option" where
  "upload_single req =
     (case file_part req of
        None \<Rightarrow> Inr None
      | Some f \<Rightarrow>
         (case fileFilter f of
            Inl err \<Rightarrow> Inl err
          | Inr include \<Rightarrow>
             if \<not> include then Inr None
             else if fileSize_limit < length (buffer f)
             then Inl (MulterError ''LIMIT_FILE_SIZE'' ''File too large'')
             else Inr (Some f)))"

section \<open>The upload handler\<close>

text \<open>
  The constants of the handler, in the order the handler computes them: \<open>rawUserId\<close>,
  \<open>userId\<close>, \<open>ext\<close>, \<open>key\<close> and \<open>mime\<close>. \<open>uuid\<close> is what \<open>randomUUID()\<close> returns for
  this request; it is read only when no identifier was sent. The handler then puts the
  object and, on success, resolves the URL; an error thrown on the way is caught and
  answered with 500. What the handler writes to the console is left out.
\<close>

definition rawUserId :: "request \<Rightarrow> string option" where
  "rawUserId req =
     js_or (js_or (js_or (query_userId req) (query_user_id req)) (body_userId req))
       (body_user_id req)"

definition userId :: "request \<Rightarrow> string \<Rightarrow> string" where
  "userId req uuid = replace_slashes (or_default (rawUserId req) uuid)"

definition upload_ext :: "upload_file \<Rightarrow> string" where
  "upload_ext f = or_default (Some (extname (originalname f))) ''.jpg''"

definition upload_key :: "env \<Rightarrow> request \<Rightarrow> string \<Rightarrow> upload_file \<Rightarrow> string" where
  "upload_key e req uuid f = PROFILE_PREFIX e @ ''/'' @ userId req uuid @ upload_ext f"

definition upload_mime :: "upload_file \<Rightarrow> string" where
  "upload_mime f =
     (if mimetype f \<noteq> [] \<and> prefix ''image/'' (mimetype f) then mimetype f
      else if upload_ext f = ''.png'' then ''image/png''
      else if upload_ext f = ''.gif'' then ''image/gif''
      else if upload_ext f = ''.webp'' then ''image/webp''
      else ''image/jpeg'')"

definition no_file_message :: string where
  \<open>no_file_message = ''No file uploaded. Use field name "file".''\<close>

definition six_days :: nat where
  "six_days = 60 * 60 * 24 * 6"

definition uploadHandler ::
  "env \<Rightarrow> s3Client \<Rightarrow> string \<Rightarrow> request \<Rightarrow> upload_file option \<Rightarrow> store \<Rightarrow> outcome" where
  "uploadHandler e client uuid req file st =
     (case file of
        None \<Rightarrow>
          \<lparr>resp = \<lparr>status = 400, body = ErrorJson no_file_message\<rparr>,
           store_after = st, calls = []\<rparr>
      | Some f \<Rightarrow>
         let key = upload_key e req uuid f;
             mime = upload_mime f;
             put = PutObjectCommand (BUCKET e) key (buffer f) mime ''public, max-age=31536000''
         in
           (case put_error client (BUCKET e) key of
              Some m \<Rightarrow>
                \<lparr>resp = \<lparr>status = 500, body = ErrorJson (or_default (Some m) ''Upload failed'')\<rparr>,
                 store_after = st, calls = [put]\<rparr>
            | None \<Rightarrow>
               let st' = st(key \<mapsto> \<lparr>Body = buffer f, ContentType = mime,
                                     CacheControl = ''public, max-age=31536000''\<rparr>)
               in
                 if truthy (S3_PUBLIC_BASE_URL e) then
                   \<lparr>resp = \<lparr>status = 201,
                            body = UploadJson True
                              (strip_trailing_slash (or_default (S3_PUBLIC_BASE_URL e) [])
                                 @ ''/'' @ key) key\<rparr>,
                    store_after = st', calls = [put]\<rparr>
                 else
                   (case presign client (BUCKET e) key six_days of
                      Inl m \<Rightarrow>
                        \<lparr>resp = \<lparr>status = 500,
                                 body = ErrorJson (or_default (Some m) ''Upload failed'')\<rparr>,
                         store_after = st',
                         calls = [put, GetSignedUrl (BUCKET e) key six_days]\<rparr>
                    | Inr url \<Rightarrow>
                        \<lparr>resp = \<lparr>status = 201, body = UploadJson True url key\<rparr>,
                         store_after = st',
                         calls = [put, GetSignedUrl (BUCKET e) key six_days]\<rparr>)))"

text \<open>\<open>POST /api/upload/profile-pic\<close>: the middleware, then the handler or the error handler.\<close>

definition post_upload_profile_pic ::
  "env \<Rightarrow> s3Client \<Rightarrow> string \<Rightarrow> request \<Rightarrow> store \<Rightarrow> outcome" where
  "post_upload_profile_pic e client uuid req st =
     (case upload_single req of
        Inl err \<Rightarrow> \<lparr>resp = errorMiddleware err, store_after = st, calls = []\<rparr>
      | Inr file \<Rightarrow> uploadHandler e client uuid req file st)"

text \<open>
  \<open>randomUUID()\<close> returns a version 4 UUID in its canonical form: 36 characters, dashes
  at positions 8, 13, 18 and 23, and lower-case hexadecimal digits elsewhere.
\<close>

definition is_uuid :: "string \<Rightarrow> bool" where
  "is_uuid u =
     (length u = 36 \<and>
      list_all (\<lambda>(i, c). if i \<in> {8, 13, 18, 23} then c = CHR ''-''
                          else c \<in> set ''0123456789abcdef'')
        (zip [0..<36] u))"

section \<open>The lookup handlers\<close>

text \<open>\<open>GET /api/profile-pics\<close>.\<close>

definition listHandler :: "env \<Rightarrow> s3Client \<Rightarrow> store \<Rightarrow> outcome" where
  "listHandler e client st =
     (let cmd = ListObjectsV2Command (BUCKET e) (PROFILE_PREFIX e @ ''/'') 100 in
      case list_reply client (BUCKET e) (PROFILE_PREFIX e @ ''/'') 100 of
        Inl m \<Rightarrow>
          \<lparr>resp = \<lparr>status = 500, body = ErrorJson (or_default (Some m) ''Failed to list'')\<rparr>,
           store_after = st, calls = [cmd]\<rparr>
      | Inr contents \<Rightarrow>
         let baseUrl = strip_trailing_slash (or_default (S3_PUBLIC_BASE_URL e) []);
             items = map (\<lambda>obj. \<lparr>item_key = Key obj, item_size = Size obj,
                                   item_lastModified = LastModified obj,
                                   item_url = (if baseUrl \<noteq> []
                                               then Some (baseUrl @ ''/'' @ Key obj)
                                               else None)\<rparr>)
                       (case contents of None \<Rightarrow> [] | Some os \<Rightarrow> os)
         in \<lparr>resp = \<lparr>status = 200, body = ListJson (PROFILE_PREFIX e) (length items) items\<rparr>,
             store_after = st, calls = [cmd]\<rparr>)"

text \<open>
  \<open>GET /api/profile-pic/:key\<close>. \<open>params_key\<close> is \<open>req.params.key\<close>; the handler decodes it
  and signs the result. A \<open>URIError\<close> carries the message \<open>URI malformed\<close>.
\<close>

definition getUrlHandler :: "env \<Rightarrow> s3Client \<Rightarrow> string \<Rightarrow> store \<Rightarrow> outcome" where
  "getUrlHandler e client params_key st =
     (case decodeURIComponent params_key of
        None \<Rightarrow>
          \<lparr>resp = \<lparr>status = 500, body = ErrorJson ''URI malformed''\<rparr>,
           store_after = st, calls = []\<rparr>
      | Some key \<Rightarrow>
         (case presign client (BUCKET e) key 3600 of
            Inl m \<Rightarrow>
              \<lparr>resp = \<lparr>status = 500, body = ErrorJson (or_default (Some m) ''Failed to get URL'')\<rparr>,
               store_after = st, calls = [GetSignedUrl (BUCKET e) key 3600]\<rparr>
          | Inr url \<Rightarrow>
              \<lparr>resp = \<lparr>status = 200, body = UrlJson url\<rparr>,
               store_after = st, calls = [GetSignedUrl (BUCKET e) key 3600]\<rparr>))"

section \<open>Scenarios\<close>

text \<open>
  The inputs the scenarios below run on: a ten-byte file declared \<open>image/jpeg\<close> sent
  with \<open>userId=test-user-1\<close>; a configuration without a public base URL and one with;
  a client whose calls all succeed and whose listing holds one object; and the same
  client with a signer that fails.
\<close>

definition jpeg_file :: upload_file where
  "jpeg_file = \<lparr>originalname = ''test.jpg'', mimetype = ''image/jpeg'', buffer = replicate 10 0\<rparr>"

definition test_request :: request where
  "test_request =
     \<lparr>query_userId = None, query_user_id = None, body_userId = Some ''test-user-1'',
      body_user_id = None, file_part = Some jpeg_file\<rparr>"

definition signed_env :: env where
  "signed_env = \<lparr>S3_BUCKET = ''bucket'', S3_PROFILE_PREFIX = None, S3_PUBLIC_BASE_URL = None\<rparr>"

definition static_env :: "string \<Rightarrow> env" where
  "static_env base =
     \<lparr>S3_BUCKET = ''bucket'', S3_PROFILE_PREFIX = None, S3_PUBLIC_BASE_URL = Some base\<rparr>"

definition working_client :: s3Client where
  "working_client =
     \<lparr>put_error = (\<lambda>bucket key. None),
      presign = (\<lambda>bucket key ttl. Inr (''https://signed.example/'' @ key)),
      list_reply = (\<lambda>bucket pre n.
        Inr (Some [\<lparr>Key = ''profile-pics/test-user-1.jpg'', Size = 10, LastModified = 0\<rparr>]))\<rparr>"

definition unsigned_client :: s3Client where
  "unsigned_client =
     working_client\<lparr>presign := (\<lambda>bucket key ttl. Inl ''Could not load credentials'')\<rparr>"

definition test_uuid :: string where
  "test_uuid = ''123e4567-e89b-42d3-a456-426614174000''"

section \<open>Properties of the string functions\<close>

lemma toLowerCase_canonicalize: "toLowerCase_char (canonicalize c) = toLowerCase_char c"
  by (auto simp: toLowerCase_char_def canonicalize_def split: if_splits)

lemma canonicalize_toLowerCase: "canonicalize (toLowerCase_char c) = canonicalize c"
  by (auto simp: toLowerCase_char_def canonicalize_def split: if_splits)

lemma toLowerCase_char_fixed: "d \<notin> set upper_letters \<Longrightarrow> toLowerCase_char d = d"
  by (auto simp: toLowerCase_char_def upper_letters_def split: if_splits)

lemma canonicalize_eq_iff:
  assumes "d \<notin> set upper_letters"
  shows "canonicalize d = canonicalize c \<longleftrightarrow> toLowerCase_char c = d"
proof
  assume "canonicalize d = canonicalize c"
  then have "toLowerCase_char (canonicalize d) = toLowerCase_char (canonicalize c)"
    by simp
  then have "toLowerCase_char d = toLowerCase_char c"
    by (simp only: toLowerCase_canonicalize)
  with assms show "toLowerCase_char c = d"
    by (simp add: toLowerCase_char_fixed)
next
  assume "toLowerCase_char c = d"
  then have "canonicalize d = canonicalize (toLowerCase_char c)"
    by simp
  then show "canonicalize d = canonicalize c"
    by (simp only: canonicalize_toLowerCase)
qed

lemma ci_match_iff:
  "list_all (\<lambda>d. d \<notin> set upper_letters) lit \<Longrightarrow> ci_match lit s \<longleftrightarrow> toLowerCase s = lit"
proof (induction lit arbitrary: s)
  case Nil
  then show ?case by (auto simp: ci_match_def toLowerCase_def)
next
  case (Cons d ds)
  show ?case
  proof (cases s)
    case Nil
    then show ?thesis by (simp add: ci_match_def toLowerCase_def)
  next
    case (Cons c cs)
    from Cons.prems have d: "d \<notin> set upper_letters"
      and ds: "list_all (\<lambda>d. d \<notin> set upper_letters) ds"
      by simp_all
    from Cons.IH [OF ds, of cs] canonicalize_eq_iff [OF d, of c] Cons
    show ?thesis by (simp add: ci_match_def toLowerCase_def)
  qed
qed

lemma allowedMime_test_iff:
  "allowedMime_test s \<longleftrightarrow>
     toLowerCase s \<in> {''image/jpeg'', ''image/jpg'', ''image/pjpeg'', ''image/png'',
                        ''image/gif'', ''image/webp''}"
proof -
  have "ci_match lit s \<longleftrightarrow> toLowerCase s = lit"
    if "lit \<in> {''image/jpeg'', ''image/jpg'', ''image/pjpeg'', ''image/png'',
                  ''image/gif'', ''image/webp''}" for lit
    using that by (intro ci_match_iff) (auto simp: upper_letters_def)
  then show ?thesis
    by (auto simp: allowedMime_test_def)
qed

lemma or_default_Some: "or_default (Some s) d = (if s = [] then d else s)"
  by (simp add: or_default_def)

section \<open>The upload filter decides by type, then by extension\<close>

text \<open>
  C1. For every file, the filter accepts when the declared content type, lower-cased, is
  one of \<open>image/jpeg\<close>, \<open>image/jpg\<close>, \<open>image/pjpeg\<close>, \<open>image/png\<close>, \<open>image/gif\<close>,
  \<open>image/webp\<close>; otherwise it accepts when the extension of the original file name,
  lower-cased, is one of \<open>.jpg\<close>, \<open>.jpeg\<close>, \<open>.png\<close>, \<open>.gif\<close>, \<open>.webp\<close>; otherwise it
  fails with the "Only images" error, which the error handler answers with status 400
  and a message that contains \<open>Only images\<close>.
\<close>

theorem fileFilter_by_type_then_extension:
  "fileFilter f =
     (if toLowerCase (mimetype f) \<in> {''image/jpeg'', ''image/jpg'', ''image/pjpeg'',
                                        ''image/png'', ''image/gif'', ''image/webp''}
      then Inr True
      else if toLowerCase (extname (originalname f)) \<in>
                {''.jpg'', ''.jpeg'', ''.png'', ''.gif'', ''.webp''}
      then Inr True
      else Inl only_images) \<and>
   errorMiddleware only_images = \<lparr>status = 400, body = ErrorJson (message only_images)\<rparr> \<and>
   js_includes (message only_images) ''Only images''"
proof -
  have ext: "toLowerCase (or_default (Some (extname (originalname f))) []) =
               toLowerCase (extname (originalname f))"
    by (simp add: or_default_Some)
  have filter: "fileFilter f =
     (if toLowerCase (mimetype f) \<in> {''image/jpeg'', ''image/jpg'', ''image/pjpeg'',
                                        ''image/png'', ''image/gif'', ''image/webp''}
      then Inr True
      else if toLowerCase (extname (originalname f)) \<in>
                {''.jpg'', ''.jpeg'', ''.png'', ''.gif'', ''.webp''}
      then Inr True
      else Inl only_images)"
    unfolding fileFilter_def Let_def ext allowedMime_test_iff allowedExt_def
    by simp
  have inc: "js_includes (message only_images) ''Only images''"
    by code_simp
  have nonempty: "message only_images \<noteq> []"
    by (simp add: only_images_def)
  have mw: "errorMiddleware only_images =
              \<lparr>status = 400, body = ErrorJson (message only_images)\<rparr>"
    using inc nonempty by (simp add: errorMiddleware_def only_images_def)
  from filter mw inc show ?thesis by blast
qed

theorem fileFilter_by_type_then_extension_witness:
  "fileFilter \<lparr>originalname = ''notes.txt'', mimetype = ''text/plain'', buffer = []\<rparr>
     = Inl only_images \<and>
   fileFilter \<lparr>originalname = ''photo.JPG'', mimetype = ''application/octet-stream'',
               buffer = []\<rparr> = Inr True \<and>
   fileFilter \<lparr>originalname = ''blob'', mimetype = ''Image/PNG'', buffer = []\<rparr> = Inr True \<and>
   status (errorMiddleware only_images) = 400"
proof -
  have m: "toLowerCase ''text/plain'' = ''text/plain''"
    "toLowerCase ''application/octet-stream'' = ''application/octet-stream''"
    "toLowerCase ''Image/PNG'' = ''image/png''"
    by code_simp+
  have x: "toLowerCase (extname ''notes.txt'') = ''.txt''"
    "toLowerCase (extname ''photo.JPG'') = ''.jpg''"
    by code_simp+
  show ?thesis
    using fileFilter_by_type_then_extension
            [of "\<lparr>originalname = ''notes.txt'', mimetype = ''text/plain'', buffer = []\<rparr>"]
          fileFilter_by_type_then_extension
            [of "\<lparr>originalname = ''photo.JPG'', mimetype = ''application/octet-stream'',
                  buffer = []\<rparr>"]
          fileFilter_by_type_then_extension
            [of "\<lparr>originalname = ''blob'', mimetype = ''Image/PNG'', buffer = []\<rparr>"]
    by (simp add: m x)
qed

section \<open>Key derivation\<close>

lemma replace_slashes_map:
  "replace_slashes s = map (\<lambda>c. if c = CHR ''/'' then CHR ''-'' else c) s"
  by (induction s) simp_all

lemma replace_slashes_no_slash: "CHR ''/'' \<notin> set (replace_slashes s)"
  by (induction s) simp_all

lemma replace_slashes_id: "CHR ''/'' \<notin> set s \<Longrightarrow> replace_slashes s = s"
  by (induction s) auto

lemma find_truthy_nonempty: "find truthy xs = Some (Some raw) \<Longrightarrow> raw \<noteq> []"
proof -
  assume "find truthy xs = Some (Some raw)"
  then have "truthy (Some raw)"
    by (auto simp: find_Some_iff)
  then show ?thesis
    by (simp add: truthy_def)
qed

text \<open>The chain of \<open>||\<close> picks the first truthy field, in the order it is written.\<close>

lemma rawUserId_first_truthy:
  "or_default (rawUserId req) uuid =
     (case find truthy [query_userId req, query_user_id req, body_userId req, body_user_id req] of
        Some (Some raw) \<Rightarrow> raw
      | _ \<Rightarrow> uuid)"
  by (auto simp: rawUserId_def js_or_def or_default_def truthy_def split: option.splits)

lemma upload_key_form:
  "upload_key e req uuid f =
     PROFILE_PREFIX e @ ''/'' @ userId req uuid @
       (if extname (originalname f) = [] then ''.jpg'' else extname (originalname f))"
  by (simp add: upload_key_def upload_ext_def or_default_Some)

text \<open>
  C2. When an identifier is supplied (the first non-empty of the four fields is \<open>raw\<close>),
  the identifier segment of the key is \<open>raw\<close> with every slash replaced by a dash, and
  the key depends on nothing but the identifier, the file name and the prefix: two
  requests that agree on them get the same key, whatever \<open>randomUUID\<close> would return.
\<close>

theorem supplied_identifier_key_deterministic:
  assumes "find truthy [query_userId req, query_user_id req, body_userId req, body_user_id req]
             = Some (Some raw)"
    and "find truthy [query_userId req', query_user_id req', body_userId req', body_user_id req']
             = Some (Some raw)"
    and "originalname f' = originalname f"
    and "PROFILE_PREFIX e' = PROFILE_PREFIX e"
  shows "userId req uuid = map (\<lambda>c. if c = CHR ''/'' then CHR ''-'' else c) raw \<and>
         upload_key e req uuid f =
           PROFILE_PREFIX e @ ''/'' @ map (\<lambda>c. if c = CHR ''/'' then CHR ''-'' else c) raw
             @ upload_ext f \<and>
         upload_key e' req' uuid' f' = upload_key e req uuid f"
proof -
  have u: "userId req uuid = replace_slashes raw"
    using assms(1) by (simp add: userId_def rawUserId_first_truthy)
  have u': "userId req' uuid' = replace_slashes raw"
    using assms(2) by (simp add: userId_def rawUserId_first_truthy)
  have x: "upload_ext f' = upload_ext f"
    using assms(3) by (simp add: upload_ext_def)
  show ?thesis
    using u u' x assms(4) by (simp add: upload_key_def replace_slashes_map)
qed

theorem supplied_identifier_key_deterministic_witness:
  "\<forall>uuid uuid'.
     upload_key \<lparr>S3_BUCKET = ''bucket'', S3_PROFILE_PREFIX = None, S3_PUBLIC_BASE_URL = None\<rparr>
       \<lparr>query_userId = None, query_user_id = None,
        body_userId = Some ''gid://shopify/Customer/123'', body_user_id = None,
        file_part = None\<rparr>
       uuid \<lparr>originalname = ''a.png'', mimetype = ''image/png'', buffer = []\<rparr>
     = ''profile-pics/gid:--shopify-Customer-123.png'' \<and>
     upload_key \<lparr>S3_BUCKET = ''bucket'', S3_PROFILE_PREFIX = None, S3_PUBLIC_BASE_URL = None\<rparr>
       \<lparr>query_userId = None, query_user_id = None,
        body_userId = Some ''gid://shopify/Customer/123'', body_user_id = None,
        file_part = None\<rparr>
       uuid' \<lparr>originalname = ''a.png'', mimetype = ''image/png'', buffer = []\<rparr>
     = ''profile-pics/gid:--shopify-Customer-123.png''"
proof -
  let ?e = "\<lparr>S3_BUCKET = ''bucket'', S3_PROFILE_PREFIX = None, S3_PUBLIC_BASE_URL = None\<rparr>"
  let ?req = "\<lparr>query_userId = None, query_user_id = None,
                body_userId = Some ''gid://shopify/Customer/123'', body_user_id = None,
                file_part = None\<rparr>"
  let ?f = "\<lparr>originalname = ''a.png'', mimetype = ''image/png'', buffer = []\<rparr>"
  have found: "find truthy [query_userId ?req, query_user_id ?req, body_userId ?req,
                            body_user_id ?req] = Some (Some ''gid://shopify/Customer/123'')"
    by (simp add: truthy_def)
  have pre: "PROFILE_PREFIX ?e = ''profile-pics''"
    by (simp add: PROFILE_PREFIX_def or_default_def)
  have x: "upload_ext ?f = ''.png''"
    by code_simp
  have "upload_key ?e ?req uuid ?f = ''profile-pics/gid:--shopify-Customer-123.png''" for uuid
    using supplied_identifier_key_deterministic
            [where req = ?req and req' = ?req and raw = "''gid://shopify/Customer/123''"
               and f = ?f and f' = ?f and e = ?e and e' = ?e and uuid = uuid and uuid' = uuid,
             OF found found refl refl]
    by (simp add: pre x)
  then show ?thesis by simp
qed

lemma is_uuid_chars:
  assumes "is_uuid u" and "c \<in> set u"
  shows "c = CHR ''-'' \<or> c \<in> set ''0123456789abcdef''"
proof -
  from assms(1) have len: "length u = 36"
    and all: "list_all (\<lambda>(i, c). if i \<in> {8, 13, 18, 23} then c = CHR ''-''
                                     else c \<in> set ''0123456789abcdef'') (zip [0..<36] u)"
    by (simp_all add: is_uuid_def)
  from assms(2) obtain i where i: "i < length u" "u ! i = c"
    by (auto simp: in_set_conv_nth)
  with len have "(i, c) \<in> set (zip [0..<36] u)"
    by (force simp: set_zip)
  with all have "if i \<in> {8, 13, 18, 23} then c = CHR ''-'' else c \<in> set ''0123456789abcdef''"
    by (auto simp: list_all_iff)
  then show ?thesis
    by (simp split: if_splits)
qed

lemma is_uuid_no_slash: "is_uuid u \<Longrightarrow> CHR ''/'' \<notin> set u"
  using is_uuid_chars [of u "CHR ''/''"] by auto

lemma is_uuid_nonempty: "is_uuid u \<Longrightarrow> u \<noteq> []"
  by (auto simp: is_uuid_def)

text \<open>
  C10. The four identifier fields are consulted in the order query \<open>userId\<close>, query
  \<open>user_id\<close>, body \<open>userId\<close>, body \<open>user_id\<close>, and the first non-empty value is the
  identifier (with its slashes replaced). When every field is missing or the empty
  string, the identifier segment is the UUID generated for the request, which is not
  empty, and the key is built from it.
\<close>

theorem empty_identifier_is_absent:
  assumes "is_uuid uuid"
  shows "userId req uuid =
           (case find truthy [query_userId req, query_user_id req, body_userId req,
                              body_user_id req] of
              Some (Some raw) \<Rightarrow> replace_slashes raw
            | _ \<Rightarrow> uuid) \<and>
         (list_all (\<lambda>x. x = None \<or> x = Some [])
            [query_userId req, query_user_id req, body_userId req, body_user_id req] \<longrightarrow>
          userId req uuid = uuid \<and> userId req uuid \<noteq> [] \<and>
          upload_key e req uuid f = PROFILE_PREFIX e @ ''/'' @ uuid @ upload_ext f)"
proof -
  have id: "replace_slashes uuid = uuid"
    using assms by (simp add: is_uuid_no_slash replace_slashes_id)
  have first: "userId req uuid =
           (case find truthy [query_userId req, query_user_id req, body_userId req,
                              body_user_id req] of
              Some (Some raw) \<Rightarrow> replace_slashes raw
            | _ \<Rightarrow> uuid)"
    unfolding userId_def rawUserId_first_truthy
    using id by (simp split: option.splits)
  have absent: "userId req uuid = uuid"
    if "list_all (\<lambda>x. x = None \<or> x = Some [])
          [query_userId req, query_user_id req, body_userId req, body_user_id req]"
  proof -
    from that have "find truthy [query_userId req, query_user_id req, body_userId req,
                                 body_user_id req] = None"
      by (auto simp: truthy_def)
    with first show ?thesis by simp
  qed
  from first absent is_uuid_nonempty [OF assms] show ?thesis
    by (simp add: upload_key_def)
qed

theorem empty_identifier_is_absent_witness:
  "userId \<lparr>query_userId = Some [], query_user_id = None, body_userId = Some [],
           body_user_id = None, file_part = None\<rparr>
     ''123e4567-e89b-42d3-a456-426614174000'' = ''123e4567-e89b-42d3-a456-426614174000'' \<and>
   userId \<lparr>query_userId = Some [], query_user_id = Some ''a/b'', body_userId = Some ''c'',
           body_user_id = None, file_part = None\<rparr>
     ''123e4567-e89b-42d3-a456-426614174000'' = ''a-b''"
proof -
  have u: "is_uuid ''123e4567-e89b-42d3-a456-426614174000''"
    by code_simp
  show ?thesis
    using empty_identifier_is_absent
            [OF u, where req = "\<lparr>query_userId = Some [], query_user_id = None,
                                  body_userId = Some [], body_user_id = None,
                                  file_part = None\<rparr>"]
          empty_identifier_is_absent
            [OF u, where req = "\<lparr>query_userId = Some [], query_user_id = Some ''a/b'',
                                  body_userId = Some ''c'', body_user_id = None,
                                  file_part = None\<rparr>"]
    by (simp add: truthy_def)
qed

section \<open>The content type of the stored object\<close>

lemma uploadHandler_first_call:
  "hd (calls (uploadHandler e client uuid req (Some f) st)) =
     PutObjectCommand (BUCKET e) (upload_key e req uuid f) (buffer f) (upload_mime f)
       ''public, max-age=31536000''"
  by (simp add: uploadHandler_def Let_def split: option.splits sum.splits)

text \<open>
  C7. The content type sent with the put is the declared type, unchanged, when it starts
  with \<open>image/\<close>; otherwise it is \<open>image/png\<close>, \<open>image/gif\<close> or \<open>image/webp\<close> for the
  extensions \<open>.png\<close>, \<open>.gif\<close>, \<open>.webp\<close>, and \<open>image/jpeg\<close> for every other extension and
  for a file name without one.
\<close>

theorem mime_resolution:
  "upload_mime f =
     (if prefix ''image/'' (mimetype f) then mimetype f
      else case map_of [(''.png'', ''image/png''), (''.gif'', ''image/gif''),
                        (''.webp'', ''image/webp'')] (upload_ext f) of
             Some m \<Rightarrow> m
           | None \<Rightarrow> ''image/jpeg'') \<and>
   (\<not> prefix ''image/'' (mimetype f) \<and> extname (originalname f) = [] \<longrightarrow>
      upload_mime f = ''image/jpeg'') \<and>
   hd (calls (uploadHandler e client uuid req (Some f) st)) =
     PutObjectCommand (BUCKET e) (upload_key e req uuid f) (buffer f) (upload_mime f)
       ''public, max-age=31536000''"
proof -
  have nonempty: "prefix ''image/'' m \<Longrightarrow> m \<noteq> []" for m :: string
    by auto
  have table: "upload_mime f =
     (if prefix ''image/'' (mimetype f) then mimetype f
      else case map_of [(''.png'', ''image/png''), (''.gif'', ''image/gif''),
                        (''.webp'', ''image/webp'')] (upload_ext f) of
             Some m \<Rightarrow> m
           | None \<Rightarrow> ''image/jpeg'')"
    using nonempty [of "mimetype f"] by (simp add: upload_mime_def)
  have none: "upload_mime f = ''image/jpeg''"
    if "\<not> prefix ''image/'' (mimetype f) \<and> extname (originalname f) = []"
    using that by (simp add: upload_mime_def upload_ext_def or_default_Some)
  from table none uploadHandler_first_call [of e client uuid req f st] show ?thesis
    by blast
qed

theorem mime_resolution_witness:
  "upload_mime \<lparr>originalname = ''a.webp'', mimetype = ''application/octet-stream'',
                buffer = []\<rparr> = ''image/webp'' \<and>
   upload_mime \<lparr>originalname = ''a.png'', mimetype = ''image/x-icon'', buffer = []\<rparr>
     = ''image/x-icon'' \<and>
   upload_mime \<lparr>originalname = ''noext'', mimetype = ''text/plain'', buffer = []\<rparr>
     = ''image/jpeg''"
proof -
  have x: "upload_ext \<lparr>originalname = ''a.webp'', mimetype = ''application/octet-stream'',
                       buffer = []\<rparr> = ''.webp''"
    "upload_ext \<lparr>originalname = ''noext'', mimetype = ''text/plain'', buffer = []\<rparr> = ''.jpg''"
    "extname ''noext'' = []"
    by code_simp+
  show ?thesis
    using mime_resolution
            [where f = "\<lparr>originalname = ''a.webp'', mimetype = ''application/octet-stream'',
                          buffer = []\<rparr>"]
          mime_resolution
            [where f = "\<lparr>originalname = ''a.png'', mimetype = ''image/x-icon'',
                          buffer = []\<rparr>"]
          mime_resolution
            [where f = "\<lparr>originalname = ''noext'', mimetype = ''text/plain'',
                          buffer = []\<rparr>"]
    by (simp add: x)
qed

section \<open>The case of the extension\<close>

text \<open>
  C3. The key is the prefix, a slash, the identifier and the extension, and the
  extension is \<open>.jpg\<close> when the file name has none (lemma \<open>upload_key_form\<close>). The
  extension is taken from the file name as it is written: for the file name \<open>a.PNG\<close>,
  which the filter accepts by its lower-cased extension, the key ends in \<open>.PNG\<close>, not in
  \<open>.png\<close>, and the content type inferred from it is \<open>image/jpeg\<close>.
\<close>

theorem upload_key_keeps_extension_case:
  "fileFilter \<lparr>originalname = ''a.PNG'', mimetype = ''application/octet-stream'', buffer = []\<rparr>
     = Inr True \<and>
   upload_key \<lparr>S3_BUCKET = ''bucket'', S3_PROFILE_PREFIX = None, S3_PUBLIC_BASE_URL = None\<rparr>
     \<lparr>query_userId = None, query_user_id = None, body_userId = Some ''test-user-1'',
      body_user_id = None,
      file_part = Some \<lparr>originalname = ''a.PNG'', mimetype = ''application/octet-stream'',
                        buffer = []\<rparr>\<rparr>
     ''123e4567-e89b-42d3-a456-426614174000''
     \<lparr>originalname = ''a.PNG'', mimetype = ''application/octet-stream'', buffer = []\<rparr>
     = ''profile-pics/test-user-1.PNG'' \<and>
   toLowerCase (extname ''a.PNG'') = ''.png'' \<and>
   upload_mime \<lparr>originalname = ''a.PNG'', mimetype = ''application/octet-stream'', buffer = []\<rparr>
     = ''image/jpeg''"
  by code_simp

section \<open>The route as a whole\<close>

lemma fileFilter_result: "fileFilter f = Inr True \<or> fileFilter f = Inl only_images"
  by (simp add: fileFilter_def Let_def)



lemma errorMiddleware_status: "status (errorMiddleware err) = 400 \<or> status (errorMiddleware err) = 500"
  by (simp add: errorMiddleware_def)

lemma upload_single_cases:
  assumes "file_part req = Some f"
  shows "upload_single req =
           (if fileFilter f = Inl only_images then Inl only_images
            else if fileSize_limit < length (buffer f)
            then Inl (MulterError ''LIMIT_FILE_SIZE'' ''File too large'')
            else Inr (Some f))"
  using assms fileFilter_result [of f]
  by (auto simp: upload_single_def)

lemma upload_single_no_file: "file_part req = None \<Longrightarrow> upload_single req = Inr None"
  by (simp add: upload_single_def)

lemma post_rejected:
  "upload_single req = Inl err \<Longrightarrow>
   post_upload_profile_pic e client uuid req st =
     \<lparr>resp = errorMiddleware err, store_after = st, calls = []\<rparr>"
  by (simp add: post_upload_profile_pic_def)

lemma post_accepted:
  "upload_single req = Inr file \<Longrightarrow>
   post_upload_profile_pic e client uuid req st = uploadHandler e client uuid req file st"
  by (simp add: post_upload_profile_pic_def)

section \<open>The size limit\<close>




section \<open>What an upload does to the store\<close>

lemma strip_trailing_slash_join:
  "base \<noteq> [] \<Longrightarrow>
   strip_trailing_slash base @ ''/'' @ key =
     (if last base = CHR ''/'' then base @ key else base @ ''/'' @ key)"
proof -
  assume nonempty: "base \<noteq> []"
  have "butlast base @ ''/'' @ key = base @ key" if "last base = CHR ''/''"
  proof -
    from nonempty that have "butlast base @ ''/'' = base"
      by (metis append_butlast_last_id)
    then show ?thesis
      by (metis append.assoc)
  qed
  then show ?thesis
    using nonempty by (simp add: strip_trailing_slash_def)
qed

text \<open>The four ways the handler ends when it has a file.\<close>

lemma uploadHandler_put_failed:
  "put_error client (BUCKET e) (upload_key e req uuid f) = Some m \<Longrightarrow>
   uploadHandler e client uuid req (Some f) st =
     \<lparr>resp = \<lparr>status = 500, body = ErrorJson (or_default (Some m) ''Upload failed'')\<rparr>,
      store_after = st,
      calls = [PutObjectCommand (BUCKET e) (upload_key e req uuid f) (buffer f) (upload_mime f)
                 ''public, max-age=31536000'']\<rparr>"
  by (simp add: uploadHandler_def Let_def)

lemma uploadHandler_static:
  "put_error client (BUCKET e) (upload_key e req uuid f) = None \<Longrightarrow>
   truthy (S3_PUBLIC_BASE_URL e) \<Longrightarrow>
   uploadHandler e client uuid req (Some f) st =
     \<lparr>resp = \<lparr>status = 201,
              body = UploadJson True
                (strip_trailing_slash (or_default (S3_PUBLIC_BASE_URL e) []) @ ''/'' @
                   upload_key e req uuid f)
                (upload_key e req uuid f)\<rparr>,
      store_after = st(upload_key e req uuid f \<mapsto>
                         \<lparr>Body = buffer f, ContentType = upload_mime f,
                          CacheControl = ''public, max-age=31536000''\<rparr>),
      calls = [PutObjectCommand (BUCKET e) (upload_key e req uuid f) (buffer f) (upload_mime f)
                 ''public, max-age=31536000'']\<rparr>"
  by (simp add: uploadHandler_def Let_def)

lemma uploadHandler_sign_failed:
  "put_error client (BUCKET e) (upload_key e req uuid f) = None \<Longrightarrow>
   \<not> truthy (S3_PUBLIC_BASE_URL e) \<Longrightarrow>
   presign client (BUCKET e) (upload_key e req uuid f) six_days = Inl m \<Longrightarrow>
   uploadHandler e client uuid req (Some f) st =
     \<lparr>resp = \<lparr>status = 500, body = ErrorJson (or_default (Some m) ''Upload failed'')\<rparr>,
      store_after = st(upload_key e req uuid f \<mapsto>
                         \<lparr>Body = buffer f, ContentType = upload_mime f,
                          CacheControl = ''public, max-age=31536000''\<rparr>),
      calls = [PutObjectCommand (BUCKET e) (upload_key e req uuid f) (buffer f) (upload_mime f)
                 ''public, max-age=31536000'',
               GetSignedUrl (BUCKET e) (upload_key e req uuid f) six_days]\<rparr>"
  by (simp add: uploadHandler_def Let_def)

lemma uploadHandler_signed:
  "put_error client (BUCKET e) (upload_key e req uuid f) = None \<Longrightarrow>
   \<not> truthy (S3_PUBLIC_BASE_URL e) \<Longrightarrow>
   presign client (BUCKET e) (upload_key e req uuid f) six_days = Inr url \<Longrightarrow>
   uploadHandler e client uuid req (Some f) st =
     \<lparr>resp = \<lparr>status = 201, body = UploadJson True url (upload_key e req uuid f)\<rparr>,
      store_after = st(upload_key e req uuid f \<mapsto>
                         \<lparr>Body = buffer f, ContentType = upload_mime f,
                          CacheControl = ''public, max-age=31536000''\<rparr>),
      calls = [PutObjectCommand (BUCKET e) (upload_key e req uuid f) (buffer f) (upload_mime f)
                 ''public, max-age=31536000'',
               GetSignedUrl (BUCKET e) (upload_key e req uuid f) six_days]\<rparr>"
  by (simp add: uploadHandler_def Let_def)

lemma uploadHandler_no_file:
  "uploadHandler e client uuid req None st =
     \<lparr>resp = \<lparr>status = 400, body = ErrorJson no_file_message\<rparr>, store_after = st, calls = []\<rparr>"
  by (simp add: uploadHandler_def)

text \<open>A request answered with 201 went through the middleware with its file.\<close>

lemma post_created:
  assumes "status (resp (post_upload_profile_pic e client uuid req st)) = 201"
  shows "\<exists>f. file_part req = Some f \<and> upload_single req = Inr (Some f) \<and>
             post_upload_profile_pic e client uuid req st =
               uploadHandler e client uuid req (Some f) st"
proof (cases "file_part req")
  case None
  then have "post_upload_profile_pic e client uuid req st =
               uploadHandler e client uuid req None st"
    by (simp add: upload_single_no_file post_accepted)
  with assms show ?thesis
    by (simp add: uploadHandler_no_file)
next
  case (Some f)
  show ?thesis
  proof (cases "upload_single req")
    case (Inl err)
    with assms errorMiddleware_status [of err] show ?thesis
      by (simp add: post_rejected)
  next
    case (Inr fl)
    with Some upload_single_cases [OF Some] have "fl = Some f"
      by (simp split: if_splits)
    with Inr Some show ?thesis
      by (simp add: post_accepted)
  qed
qed

text \<open>
  C5, as the code has it. A request the middleware rejects, and a request without a
  file, make no call to the store and leave it as it was. A request answered with 201
  has stored the bytes of its file under its key and carries a URL. A request that is
  not answered with 201 leaves the store as it was, with one exception: when no public
  base URL is configured and the put succeeded, a failure of the signing step is
  answered with 500 while the object stays stored. With a public base URL configured,
  every request that is not answered with 201 leaves the store as it was.
\<close>

theorem upload_store_effects:
  assumes "out = post_upload_profile_pic e client uuid req st"
  shows "(\<forall>err. upload_single req = Inl err \<longrightarrow>
            resp out = errorMiddleware err \<and> calls out = [] \<and> store_after out = st) \<and>
         (file_part req = None \<longrightarrow> calls out = [] \<and> store_after out = st) \<and>
         (status (resp out) = 201 \<longrightarrow>
            (\<exists>f url. file_part req = Some f \<and>
               body (resp out) = UploadJson True url (upload_key e req uuid f) \<and>
               store_after out =
                 st(upload_key e req uuid f \<mapsto>
                      \<lparr>Body = buffer f, ContentType = upload_mime f,
                       CacheControl = ''public, max-age=31536000''\<rparr>))) \<and>
         (status (resp out) \<noteq> 201 \<longrightarrow>
            store_after out = st \<or>
            (\<exists>f m. file_part req = Some f \<and> \<not> truthy (S3_PUBLIC_BASE_URL e) \<and>
               put_error client (BUCKET e) (upload_key e req uuid f) = None \<and>
               presign client (BUCKET e) (upload_key e req uuid f) six_days = Inl m \<and>
               store_after out =
                 st(upload_key e req uuid f \<mapsto>
                      \<lparr>Body = buffer f, ContentType = upload_mime f,
                       CacheControl = ''public, max-age=31536000''\<rparr>))) \<and>
         (truthy (S3_PUBLIC_BASE_URL e) \<and> status (resp out) \<noteq> 201 \<longrightarrow> store_after out = st)"
proof -
  have rejected: "resp out = errorMiddleware err \<and> calls out = [] \<and> store_after out = st"
    if "upload_single req = Inl err" for err
    using that assms by (simp add: post_rejected)
  have no_file: "calls out = [] \<and> store_after out = st" if "file_part req = None"
    using that assms
    by (simp add: upload_single_no_file post_accepted uploadHandler_no_file)
  have handler: "\<exists>url. body (resp (uploadHandler e client uuid req (Some f) st)) =
                        UploadJson True url (upload_key e req uuid f) \<and>
                      store_after (uploadHandler e client uuid req (Some f) st) =
                        st(upload_key e req uuid f \<mapsto>
                             \<lparr>Body = buffer f, ContentType = upload_mime f,
                              CacheControl = ''public, max-age=31536000''\<rparr>)"
    if "status (resp (uploadHandler e client uuid req (Some f) st)) = 201" for f
    using that
    by (auto simp: uploadHandler_def Let_def split: option.splits sum.splits if_splits)
  have created: "\<exists>f url. file_part req = Some f \<and>
               body (resp out) = UploadJson True url (upload_key e req uuid f) \<and>
               store_after out =
                 st(upload_key e req uuid f \<mapsto>
                      \<lparr>Body = buffer f, ContentType = upload_mime f,
                       CacheControl = ''public, max-age=31536000''\<rparr>)"
    if "status (resp out) = 201"
  proof -
    from that assms post_created [of e client uuid req st]
    obtain f where f: "file_part req = Some f"
      "out = uploadHandler e client uuid req (Some f) st"
      by auto
    with that handler [of f] show ?thesis
      by auto
  qed
  have failed: "store_after out = st \<or>
            (\<exists>f m. file_part req = Some f \<and> \<not> truthy (S3_PUBLIC_BASE_URL e) \<and>
               put_error client (BUCKET e) (upload_key e req uuid f) = None \<and>
               presign client (BUCKET e) (upload_key e req uuid f) six_days = Inl m \<and>
               store_after out =
                 st(upload_key e req uuid f \<mapsto>
                      \<lparr>Body = buffer f, ContentType = upload_mime f,
                       CacheControl = ''public, max-age=31536000''\<rparr>))"
    if not_created: "status (resp out) \<noteq> 201"
  proof (cases "upload_single req")
    case (Inl err)
    with rejected show ?thesis by simp
  next
    case (Inr fl)
    show ?thesis
    proof (cases "file_part req")
      case None
      with no_file show ?thesis by simp
    next
      case (Some f)
      with Inr upload_single_cases [OF Some] have "fl = Some f"
        by (simp split: if_splits)
      with Inr assms have out: "out = uploadHandler e client uuid req (Some f) st"
        by (simp add: post_accepted)
      show ?thesis
      proof (cases "put_error client (BUCKET e) (upload_key e req uuid f)")
        case (Some m)
        with out show ?thesis
          by (simp add: uploadHandler_put_failed)
      next
        case None
        note put_ok = None
        show ?thesis
        proof (cases "truthy (S3_PUBLIC_BASE_URL e)")
          case True
          with put_ok out not_created show ?thesis
            by (simp add: uploadHandler_static)
        next
          case False
          show ?thesis
          proof (cases "presign client (BUCKET e) (upload_key e req uuid f) six_days")
            case (Inl m)
            with put_ok False out \<open>file_part req = Some f\<close> show ?thesis
              by (simp add: uploadHandler_sign_failed)
          next
            case (Inr url)
            with put_ok False out not_created show ?thesis
              by (simp add: uploadHandler_signed)
          qed
        qed
      qed
    qed
  qed
  have static: "store_after out = st"
    if "truthy (S3_PUBLIC_BASE_URL e) \<and> status (resp out) \<noteq> 201"
    using that failed by auto
  from rejected no_file created failed static show ?thesis
    by blast
qed

text \<open>The test request passes the middleware, and its key and content type.\<close>

lemma test_request_accepted: "upload_single test_request = Inr (Some jpeg_file)"
proof -
  have m: "toLowerCase ''image/jpeg'' = ''image/jpeg''"
    by code_simp
  have ok: "fileFilter jpeg_file = Inr True"
    by (simp add: fileFilter_def allowedMime_test_iff jpeg_file_def m)
  have part: "file_part test_request = Some jpeg_file"
    by (simp add: test_request_def)
  show ?thesis
    using upload_single_cases [OF part] ok
    by (simp add: fileSize_limit_def jpeg_file_def)
qed

lemma test_request_key:
  "upload_key signed_env test_request test_uuid jpeg_file = ''profile-pics/test-user-1.jpg''"
  "upload_key (static_env base) test_request test_uuid jpeg_file = ''profile-pics/test-user-1.jpg''"
proof -
  have u: "userId test_request test_uuid = ''test-user-1''"
    by code_simp
  have x: "upload_ext jpeg_file = ''.jpg''"
    by code_simp
  show "upload_key signed_env test_request test_uuid jpeg_file = ''profile-pics/test-user-1.jpg''"
    by (simp add: upload_key_def u x PROFILE_PREFIX_def signed_env_def or_default_def)
  show "upload_key (static_env base) test_request test_uuid jpeg_file
          = ''profile-pics/test-user-1.jpg''"
    by (simp add: upload_key_def u x PROFILE_PREFIX_def static_env_def or_default_def)
qed

lemma test_request_mime: "upload_mime jpeg_file = ''image/jpeg''"
  by code_simp

theorem upload_store_effects_witness:
  "status (resp (post_upload_profile_pic signed_env working_client test_uuid test_request
                   Map.empty)) = 201 \<and>
   (\<exists>f url. file_part test_request = Some f \<and>
      body (resp (post_upload_profile_pic signed_env working_client test_uuid test_request
                    Map.empty))
        = UploadJson True url (upload_key signed_env test_request test_uuid f) \<and>
      store_after (post_upload_profile_pic signed_env working_client test_uuid test_request
                     Map.empty)
        = Map.empty(upload_key signed_env test_request test_uuid f \<mapsto>
            \<lparr>Body = buffer f, ContentType = upload_mime f,
             CacheControl = ''public, max-age=31536000''\<rparr>))"
proof -
  let ?out = "post_upload_profile_pic signed_env working_client test_uuid test_request Map.empty"
  have "?out = uploadHandler signed_env working_client test_uuid test_request (Some jpeg_file)
                 Map.empty"
    by (simp add: post_accepted test_request_accepted)
  moreover have "put_error working_client (BUCKET signed_env)
                   (upload_key signed_env test_request test_uuid jpeg_file) = None"
    by (simp add: working_client_def)
  moreover have "\<not> truthy (S3_PUBLIC_BASE_URL signed_env)"
    by (simp add: signed_env_def truthy_def)
  moreover have "presign working_client (BUCKET signed_env)
                   (upload_key signed_env test_request test_uuid jpeg_file) six_days
                 = Inr (''https://signed.example/'' @
                          upload_key signed_env test_request test_uuid jpeg_file)"
    by (simp add: working_client_def)
  ultimately have created: "status (resp ?out) = 201"
    by (simp add: uploadHandler_signed)
  from created
       upload_store_effects
         [where out = ?out and e = signed_env and client = working_client
            and uuid = test_uuid and req = test_request and st = Map.empty, OF refl]
  show ?thesis
    by blast
qed

text \<open>
  The claim as stated fails when the signer fails: the request is answered with 500 and
  the object is in a store that was empty.
\<close>

theorem failed_upload_keeps_object:
  "status (resp (post_upload_profile_pic signed_env unsigned_client test_uuid test_request
                   Map.empty)) = 500 \<and>
   store_after (post_upload_profile_pic signed_env unsigned_client test_uuid test_request
                  Map.empty) ''profile-pics/test-user-1.jpg''
     = Some \<lparr>Body = replicate 10 0, ContentType = ''image/jpeg'',
             CacheControl = ''public, max-age=31536000''\<rparr> \<and>
   store_after (post_upload_profile_pic signed_env unsigned_client test_uuid test_request
                  Map.empty) \<noteq> Map.empty"
proof -
  let ?out = "post_upload_profile_pic signed_env unsigned_client test_uuid test_request Map.empty"
  have "?out = uploadHandler signed_env unsigned_client test_uuid test_request (Some jpeg_file)
                 Map.empty"
    by (simp add: post_accepted test_request_accepted)
  moreover have "put_error unsigned_client (BUCKET signed_env)
                   (upload_key signed_env test_request test_uuid jpeg_file) = None"
    by (simp add: unsigned_client_def working_client_def)
  moreover have "\<not> truthy (S3_PUBLIC_BASE_URL signed_env)"
    by (simp add: signed_env_def truthy_def)
  moreover have "presign unsigned_client (BUCKET signed_env)
                   (upload_key signed_env test_request test_uuid jpeg_file) six_days
                 = Inl ''Could not load credentials''"
    by (simp add: unsigned_client_def)
  ultimately have out: "?out =
     \<lparr>resp = \<lparr>status = 500,
              body = ErrorJson (or_default (Some ''Could not load credentials'')
                                  ''Upload failed'')\<rparr>,
      store_after = Map.empty(''profile-pics/test-user-1.jpg'' \<mapsto>
                         \<lparr>Body = buffer jpeg_file, ContentType = ''image/jpeg'',
                          CacheControl = ''public, max-age=31536000''\<rparr>),
      calls = [PutObjectCommand (BUCKET signed_env) ''profile-pics/test-user-1.jpg''
                 (buffer jpeg_file) ''image/jpeg'' ''public, max-age=31536000'',
               GetSignedUrl (BUCKET signed_env) ''profile-pics/test-user-1.jpg'' six_days]\<rparr>"
    by (simp add: uploadHandler_sign_failed test_request_key test_request_mime)
  have stored: "store_after ?out ''profile-pics/test-user-1.jpg''
     = Some \<lparr>Body = replicate 10 0, ContentType = ''image/jpeg'',
             CacheControl = ''public, max-age=31536000''\<rparr>"
    by (simp add: out jpeg_file_def)
  then have "store_after ?out ''profile-pics/test-user-1.jpg''
               \<noteq> (Map.empty :: store) ''profile-pics/test-user-1.jpg''"
    by simp
  then have changed: "store_after ?out \<noteq> Map.empty"
    by metis
  from out stored changed show ?thesis
    by simp
qed

section \<open>The URL of a stored picture\<close>

text \<open>
  C6. The URL of an upload is decided by the configuration alone. Once the put has
  succeeded: when a public base URL is configured, the handler answers 201 with the
  base URL, with a slash added unless it ends in one, followed by the key, and the
  signer is not called; otherwise the handler calls the signer for the key with a
  lifetime of \<open>60 * 60 * 24 * 6\<close> seconds, which is six days, and answers 201 with the
  URL the signer returns (500 when the signer fails). Hence a request answered with 201
  carries the static URL in the first mode and the signed URL in the second.
\<close>

theorem upload_url_by_mode:
  assumes "out = post_upload_profile_pic e client uuid req st"
  shows "(status (resp out) = 201 \<longrightarrow>
          (\<exists>f. file_part req = Some f \<and>
           (if truthy (S3_PUBLIC_BASE_URL e)
            then (\<exists>base. S3_PUBLIC_BASE_URL e = Some base \<and>
                    body (resp out) =
                      UploadJson True
                        ((if last base = CHR ''/'' then base else base @ ''/'') @
                           upload_key e req uuid f)
                        (upload_key e req uuid f)) \<and>
                 calls out =
                   [PutObjectCommand (BUCKET e) (upload_key e req uuid f) (buffer f)
                      (upload_mime f) ''public, max-age=31536000'']
            else (\<exists>url. presign client (BUCKET e) (upload_key e req uuid f) six_days = Inr url \<and>
                    body (resp out) = UploadJson True url (upload_key e req uuid f)) \<and>
                 calls out =
                   [PutObjectCommand (BUCKET e) (upload_key e req uuid f) (buffer f)
                      (upload_mime f) ''public, max-age=31536000'',
                    GetSignedUrl (BUCKET e) (upload_key e req uuid f) six_days] \<and>
                 six_days = 6 * 24 * 60 * 60))) \<and>
         (\<forall>f. put_error client (BUCKET e) (upload_key e req uuid f) = None \<longrightarrow>
           (if truthy (S3_PUBLIC_BASE_URL e)
            then (\<exists>base. S3_PUBLIC_BASE_URL e = Some base \<and>
                    resp (uploadHandler e client uuid req (Some f) st) =
                      \<lparr>status = 201,
                       body = UploadJson True
                         ((if last base = CHR ''/'' then base else base @ ''/'') @
                            upload_key e req uuid f)
                         (upload_key e req uuid f)\<rparr>) \<and>
                 calls (uploadHandler e client uuid req (Some f) st) =
                   [PutObjectCommand (BUCKET e) (upload_key e req uuid f) (buffer f)
                      (upload_mime f) ''public, max-age=31536000'']
            else resp (uploadHandler e client uuid req (Some f) st) =
                   (case presign client (BUCKET e) (upload_key e req uuid f) (6 * 24 * 60 * 60) of
                      Inr url \<Rightarrow>
                        \<lparr>status = 201, body = UploadJson True url (upload_key e req uuid f)\<rparr>
                    | Inl m \<Rightarrow>
                        \<lparr>status = 500,
                         body = ErrorJson (or_default (Some m) ''Upload failed'')\<rparr>) \<and>
                 calls (uploadHandler e client uuid req (Some f) st) =
                   [PutObjectCommand (BUCKET e) (upload_key e req uuid f) (buffer f)
                      (upload_mime f) ''public, max-age=31536000'',
                    GetSignedUrl (BUCKET e) (upload_key e req uuid f) (6 * 24 * 60 * 60)]))"
proof -
  have six: "six_days = 6 * 24 * 60 * 60"
    by (simp add: six_days_def)
  have static_join: "strip_trailing_slash base @ ''/'' @ key =
                  (if last base = CHR ''/'' then base else base @ ''/'') @ key"
    if "base \<noteq> []" for base key
    using strip_trailing_slash_join [OF that, of key] by simp
  have created: "\<exists>f. file_part req = Some f \<and>
           (if truthy (S3_PUBLIC_BASE_URL e)
            then (\<exists>base. S3_PUBLIC_BASE_URL e = Some base \<and>
                    body (resp out) =
                      UploadJson True
                        ((if last base = CHR ''/'' then base else base @ ''/'') @
                           upload_key e req uuid f)
                        (upload_key e req uuid f)) \<and>
                 calls out =
                   [PutObjectCommand (BUCKET e) (upload_key e req uuid f) (buffer f)
                      (upload_mime f) ''public, max-age=31536000'']
            else (\<exists>url. presign client (BUCKET e) (upload_key e req uuid f) six_days = Inr url \<and>
                    body (resp out) = UploadJson True url (upload_key e req uuid f)) \<and>
                 calls out =
                   [PutObjectCommand (BUCKET e) (upload_key e req uuid f) (buffer f)
                      (upload_mime f) ''public, max-age=31536000'',
                    GetSignedUrl (BUCKET e) (upload_key e req uuid f) six_days] \<and>
                 six_days = 6 * 24 * 60 * 60)"
    if st201: "status (resp out) = 201"
  proof -
    from assms st201 post_created [of e client uuid req st]
    obtain f where f: "file_part req = Some f"
      and out: "out = uploadHandler e client uuid req (Some f) st"
      by auto
    let ?key = "upload_key e req uuid f"
    from st201 out have put_ok: "put_error client (BUCKET e) ?key = None"
      by (cases "put_error client (BUCKET e) ?key") (simp_all add: uploadHandler_put_failed)
    show ?thesis
    proof (cases "truthy (S3_PUBLIC_BASE_URL e)")
      case True
      then obtain base where base: "S3_PUBLIC_BASE_URL e = Some base" "base \<noteq> []"
        by (auto simp: truthy_def split: option.splits)
      from True put_ok out base static_join [OF base(2), of ?key] f show ?thesis
        by (simp add: uploadHandler_static or_default_def)
    next
      case False
      show ?thesis
      proof (cases "presign client (BUCKET e) ?key six_days")
        case (Inl m)
        with False put_ok out st201 show ?thesis
          by (simp add: uploadHandler_sign_failed)
      next
        case (Inr url)
        with False put_ok out f show ?thesis
          by (simp add: uploadHandler_signed six_days_def)
      qed
    qed
  qed
  have handler: "if truthy (S3_PUBLIC_BASE_URL e)
            then (\<exists>base. S3_PUBLIC_BASE_URL e = Some base \<and>
                    resp (uploadHandler e client uuid req (Some f) st) =
                      \<lparr>status = 201,
                       body = UploadJson True
                         ((if last base = CHR ''/'' then base else base @ ''/'') @
                            upload_key e req uuid f)
                         (upload_key e req uuid f)\<rparr>) \<and>
                 calls (uploadHandler e client uuid req (Some f) st) =
                   [PutObjectCommand (BUCKET e) (upload_key e req uuid f) (buffer f)
                      (upload_mime f) ''public, max-age=31536000'']
            else resp (uploadHandler e client uuid req (Some f) st) =
                   (case presign client (BUCKET e) (upload_key e req uuid f) (6 * 24 * 60 * 60) of
                      Inr url \<Rightarrow>
                        \<lparr>status = 201, body = UploadJson True url (upload_key e req uuid f)\<rparr>
                    | Inl m \<Rightarrow>
                        \<lparr>status = 500,
                         body = ErrorJson (or_default (Some m) ''Upload failed'')\<rparr>) \<and>
                 calls (uploadHandler e client uuid req (Some f) st) =
                   [PutObjectCommand (BUCKET e) (upload_key e req uuid f) (buffer f)
                      (upload_mime f) ''public, max-age=31536000'',
                    GetSignedUrl (BUCKET e) (upload_key e req uuid f) (6 * 24 * 60 * 60)]"
    if put_ok: "put_error client (BUCKET e) (upload_key e req uuid f) = None" for f
  proof (cases "truthy (S3_PUBLIC_BASE_URL e)")
    case True
    then obtain base where base: "S3_PUBLIC_BASE_URL e = Some base" "base \<noteq> []"
      by (auto simp: truthy_def split: option.splits)
    from True put_ok base static_join [OF base(2), of "upload_key e req uuid f"] show ?thesis
      by (simp add: uploadHandler_static or_default_def)
  next
    case False
    show ?thesis
    proof (cases "presign client (BUCKET e) (upload_key e req uuid f) six_days")
      case (Inl m)
      with False put_ok six show ?thesis
        by (simp add: uploadHandler_sign_failed)
    next
      case (Inr url)
      with False put_ok six show ?thesis
        by (simp add: uploadHandler_signed)
    qed
  qed
  from created handler show ?thesis
    by blast
qed

theorem upload_url_by_mode_witness:
  "body (resp (post_upload_profile_pic (static_env ''https://cdn.example'') working_client
                 test_uuid test_request Map.empty))
     = UploadJson True ''https://cdn.example/profile-pics/test-user-1.jpg''
         ''profile-pics/test-user-1.jpg'' \<and>
   body (resp (post_upload_profile_pic (static_env ''https://cdn.example/'') working_client
                 test_uuid test_request Map.empty))
     = UploadJson True ''https://cdn.example/profile-pics/test-user-1.jpg''
         ''profile-pics/test-user-1.jpg'' \<and>
   resp (uploadHandler signed_env working_client test_uuid test_request (Some jpeg_file)
           Map.empty)
     = \<lparr>status = 201,
        body = UploadJson True ''https://signed.example/profile-pics/test-user-1.jpg''
                 ''profile-pics/test-user-1.jpg''\<rparr> \<and>
   calls (uploadHandler signed_env working_client test_uuid test_request (Some jpeg_file)
            Map.empty)
     = [PutObjectCommand ''bucket'' ''profile-pics/test-user-1.jpg'' (buffer jpeg_file)
          ''image/jpeg'' ''public, max-age=31536000'',
        GetSignedUrl ''bucket'' ''profile-pics/test-user-1.jpg'' 518400]"
proof -
  have created: "status (resp (post_upload_profile_pic (static_env base) working_client
                                 test_uuid test_request Map.empty)) = 201"
    if "base \<noteq> []" for base
  proof -
    have "post_upload_profile_pic (static_env base) working_client test_uuid test_request
            Map.empty
          = uploadHandler (static_env base) working_client test_uuid test_request
              (Some jpeg_file) Map.empty"
      by (simp add: post_accepted test_request_accepted)
    moreover have "put_error working_client (BUCKET (static_env base))
                     (upload_key (static_env base) test_request test_uuid jpeg_file) = None"
      by (simp add: working_client_def)
    moreover have "truthy (S3_PUBLIC_BASE_URL (static_env base))"
      using that by (simp add: static_env_def truthy_def)
    ultimately show ?thesis
      by (simp add: uploadHandler_static)
  qed
  have part: "file_part test_request = Some jpeg_file"
    by (simp add: test_request_def)
  have base: "S3_PUBLIC_BASE_URL (static_env b) = Some b" for b
    by (simp add: static_env_def)
  have c1: "status (resp (post_upload_profile_pic (static_env ''https://cdn.example'')
                            working_client test_uuid test_request Map.empty)) = 201"
    by (rule created) simp
  have c2: "status (resp (post_upload_profile_pic (static_env ''https://cdn.example/'')
                            working_client test_uuid test_request Map.empty)) = 201"
    by (rule created) simp
  have put_ok: "put_error working_client (BUCKET signed_env)
                  (upload_key signed_env test_request test_uuid jpeg_file) = None"
    by (simp add: working_client_def)
  have unset: "\<not> truthy (S3_PUBLIC_BASE_URL signed_env)"
    by (simp add: signed_env_def truthy_def)
  have signer: "presign working_client b k t = Inr (''https://signed.example/'' @ k)" for b k t
    by (simp add: working_client_def)
  have bucket: "BUCKET signed_env = ''bucket''"
    by (simp add: BUCKET_def signed_env_def)
  note static1 = upload_url_by_mode
            [where e = "static_env ''https://cdn.example''" and client = working_client
               and uuid = test_uuid and req = test_request and st = Map.empty, OF refl,
             THEN conjunct1, rule_format, OF c1]
  note static2 = upload_url_by_mode
            [where e = "static_env ''https://cdn.example/''" and client = working_client
               and uuid = test_uuid and req = test_request and st = Map.empty, OF refl,
             THEN conjunct1, rule_format, OF c2]
  note signed = upload_url_by_mode
            [where e = signed_env and client = working_client
               and uuid = test_uuid and req = test_request and st = Map.empty, OF refl,
             THEN conjunct2, rule_format, OF put_ok]
  from static1 have s1: "body (resp (post_upload_profile_pic (static_env ''https://cdn.example'')
                                       working_client test_uuid test_request Map.empty))
     = UploadJson True ''https://cdn.example/profile-pics/test-user-1.jpg''
         ''profile-pics/test-user-1.jpg''"
    by (simp add: part base truthy_def test_request_key)
  from static2 have s2: "body (resp (post_upload_profile_pic (static_env ''https://cdn.example/'')
                                       working_client test_uuid test_request Map.empty))
     = UploadJson True ''https://cdn.example/profile-pics/test-user-1.jpg''
         ''profile-pics/test-user-1.jpg''"
    by (simp add: part base truthy_def test_request_key)
  from signed unset have s3:
    "resp (uploadHandler signed_env working_client test_uuid test_request (Some jpeg_file)
             Map.empty)
       = \<lparr>status = 201,
          body = UploadJson True ''https://signed.example/profile-pics/test-user-1.jpg''
                   ''profile-pics/test-user-1.jpg''\<rparr> \<and>
     calls (uploadHandler signed_env working_client test_uuid test_request (Some jpeg_file)
              Map.empty)
       = [PutObjectCommand ''bucket'' ''profile-pics/test-user-1.jpg'' (buffer jpeg_file)
            ''image/jpeg'' ''public, max-age=31536000'',
          GetSignedUrl ''bucket'' ''profile-pics/test-user-1.jpg'' 518400]"
    by (simp add: signer bucket test_request_key test_request_mime)
  from s1 s2 s3 show ?thesis
    by simp
qed

section \<open>The URL of a key\<close>

lemma decode_plain: "CHR ''%'' \<notin> set s \<Longrightarrow> decode s = Some s"
proof (induction s)
  case Nil
  show ?case by (subst decode.simps) simp
next
  case (Cons c cs)
  then have "decode cs = Some cs" and "c \<noteq> CHR ''%''"
    by auto
  then show ?case by (subst decode.simps) simp
qed

text \<open>A key without a percent sign is decoded to itself.\<close>

lemma decodeURIComponent_plain: "CHR ''%'' \<notin> set s \<Longrightarrow> decodeURIComponent s = Some s"
  by (simp add: decodeURIComponent_def decode_plain)

text \<open>A parameter that cannot be decoded is answered with 500, and the signer is not called.\<close>

lemma getUrlHandler_undecodable:
  "decodeURIComponent params_key = None \<Longrightarrow>
   getUrlHandler e client params_key st =
     \<lparr>resp = \<lparr>status = 500, body = ErrorJson ''URI malformed''\<rparr>,
      store_after = st, calls = []\<rparr>"
  by (simp add: getUrlHandler_def)

text \<open>
  C8, as the code has it. When \<open>decodeURIComponent\<close> of the parameter succeeds with
  \<open>key\<close>, the handler makes one call, to the signer, for \<open>key\<close> with a lifetime of 3600
  seconds (one hour); it does not read or change the store, so its answer is the same
  whatever the store holds; and when the signer returns a URL the answer is 200 with
  that URL.
\<close>

theorem sign_decoded_key_for_one_hour:
  assumes "decodeURIComponent params_key = Some key"
  shows "calls (getUrlHandler e client params_key st) = [GetSignedUrl (BUCKET e) key (60 * 60)] \<and>
         store_after (getUrlHandler e client params_key st) = st \<and>
         resp (getUrlHandler e client params_key st') = resp (getUrlHandler e client params_key st) \<and>
         (\<forall>url. presign client (BUCKET e) key 3600 = Inr url \<longrightarrow>
            resp (getUrlHandler e client params_key st) = \<lparr>status = 200, body = UrlJson url\<rparr>)"
  using assms by (simp add: getUrlHandler_def split: sum.splits)

theorem sign_decoded_key_for_one_hour_witness:
  "(Map.empty :: store) ''profile-pics/test-user-1.jpg'' = None \<and>
   resp (getUrlHandler signed_env working_client ''profile-pics/test-user-1.jpg'' Map.empty)
     = \<lparr>status = 200,
        body = UrlJson ''https://signed.example/profile-pics/test-user-1.jpg''\<rparr> \<and>
   calls (getUrlHandler signed_env working_client ''profile-pics/test-user-1.jpg'' Map.empty)
     = [GetSignedUrl ''bucket'' ''profile-pics/test-user-1.jpg'' 3600]"
proof -
  have d: "decodeURIComponent ''profile-pics/test-user-1.jpg''
             = Some ''profile-pics/test-user-1.jpg''"
    by (rule decodeURIComponent_plain) simp
  have s: "presign working_client (BUCKET signed_env) ''profile-pics/test-user-1.jpg'' 3600
             = Inr ''https://signed.example/profile-pics/test-user-1.jpg''"
    by (simp add: working_client_def)
  have b: "BUCKET signed_env = ''bucket''"
    by (simp add: BUCKET_def signed_env_def)
  show ?thesis
    using sign_decoded_key_for_one_hour
            [OF d, where e = signed_env and client = working_client and st = Map.empty]
          s b
    by simp
qed

text \<open>
  The claim as stated fails for a key that is not a well-formed escape sequence: the
  parameter \<open>100%.jpg\<close> (sent as \<open>100%25.jpg\<close>) is answered with 500 and the signer is
  not called, although it would have signed any key.
\<close>

theorem malformed_key_is_not_signed:
  "resp (getUrlHandler signed_env working_client ''100%.jpg'' Map.empty)
     = \<lparr>status = 500, body = ErrorJson ''URI malformed''\<rparr> \<and>
   calls (getUrlHandler signed_env working_client ''100%.jpg'' Map.empty) = [] \<and>
   presign working_client (BUCKET signed_env) ''100%.jpg'' 3600
     = Inr ''https://signed.example/100%.jpg''"
  by code_simp

section \<open>The listing\<close>

text \<open>
  The listing asks for at most 100 keys under the prefix followed by a slash, makes no
  other call, and gives each item the URL made of the base URL without one trailing
  slash, a slash and the key, or no URL when the base URL without one trailing slash is
  empty.
\<close>

lemma listHandler_calls:
  "calls (listHandler e client st) = [ListObjectsV2Command (BUCKET e) (PROFILE_PREFIX e @ ''/'') 100]"
  by (simp add: listHandler_def Let_def split: sum.splits)

lemma listHandler_items:
  assumes "list_reply client (BUCKET e) (PROFILE_PREFIX e @ ''/'') 100 = Inr contents"
  shows "\<exists>items. resp (listHandler e client st) =
           \<lparr>status = 200, body = ListJson (PROFILE_PREFIX e) (length items) items\<rparr> \<and>
           map item_key items = map Key (case contents of None \<Rightarrow> [] | Some os \<Rightarrow> os) \<and>
           list_all (\<lambda>i. item_url i =
              (if strip_trailing_slash (or_default (S3_PUBLIC_BASE_URL e) []) = [] then None
               else Some (strip_trailing_slash (or_default (S3_PUBLIC_BASE_URL e) []) @ ''/'' @
                            item_key i))) items"
  using assms
  by (simp add: listHandler_def Let_def list_all_iff comp_def)

text \<open>
  C9. The listing asks for at most 100 keys and never calls the signer (lemmas
  \<open>listHandler_calls\<close>, \<open>listHandler_items\<close>). With the public base URL configured as
  \<open>/\<close>, the listing gives its items no URL, while the upload handler, under the same
  configuration, returns the base URL followed by the key.
\<close>

theorem listing_drops_root_base_url:
  "resp (listHandler (static_env ''/'') working_client Map.empty)
     = \<lparr>status = 200,
        body = ListJson ''profile-pics'' 1
                 [\<lparr>item_key = ''profile-pics/test-user-1.jpg'', item_size = 10,
                   item_lastModified = 0, item_url = None\<rparr>]\<rparr> \<and>
   body (resp (post_upload_profile_pic (static_env ''/'') working_client test_uuid test_request
                 Map.empty))
     = UploadJson True ''/profile-pics/test-user-1.jpg'' ''profile-pics/test-user-1.jpg''"
proof -
  have listing: "resp (listHandler (static_env ''/'') working_client Map.empty)
     = \<lparr>status = 200,
        body = ListJson ''profile-pics'' 1
                 [\<lparr>item_key = ''profile-pics/test-user-1.jpg'', item_size = 10,
                   item_lastModified = 0, item_url = None\<rparr>]\<rparr>"
    by code_simp
  have "post_upload_profile_pic (static_env ''/'') working_client test_uuid test_request Map.empty
          = uploadHandler (static_env ''/'') working_client test_uuid test_request
              (Some jpeg_file) Map.empty"
    by (simp add: post_accepted test_request_accepted)
  moreover have "put_error working_client (BUCKET (static_env ''/''))
                   (upload_key (static_env ''/'') test_request test_uuid jpeg_file) = None"
    by (simp add: working_client_def)
  moreover have "truthy (S3_PUBLIC_BASE_URL (static_env ''/''))"
    by (simp add: static_env_def truthy_def)
  moreover have "strip_trailing_slash (or_default (S3_PUBLIC_BASE_URL (static_env ''/'')) []) = []"
    by (simp add: static_env_def or_default_def strip_trailing_slash_def)
  ultimately have upload:
    "body (resp (post_upload_profile_pic (static_env ''/'') working_client test_uuid test_request
                   Map.empty))
       = UploadJson True ''/profile-pics/test-user-1.jpg'' ''profile-pics/test-user-1.jpg''"
    by (simp add: uploadHandler_static test_request_key)
  from listing upload show ?thesis
    by simp
qed

end
